theory Spec2Isabelle
  imports Complex_Main
begin

section \<open>Numbers and geometry\<close>

text \<open>
  The component \<^verbatim>\<open>FaceDetectionApp.tsx\<close> computes with JavaScript numbers. The
  rectangles it handles are pixel coordinates, and the only non-integral values it forms
  are quarter multiples of them (\<^verbatim>\<open>max(width, height) * 0.25\<close>), which a double holds
  exactly below \<open>2^51\<close>. Numbers are therefore modelled as exact rationals; \<^verbatim>\<open>NaN\<close> and the
  infinities are outside the model.

  \<^verbatim>\<open>Math.round\<close> rounds to the nearest integer, a tie going towards plus infinity.
\<close>

definition Math_round :: "rat \<Rightarrow> rat" where
  "Math_round q = of_int \<lfloor>q + 1 / 2\<rfloor>"

text \<open>\<^verbatim>\<open>interface FaceRect { x; y; width; height }\<close>\<close>

record FaceRect =
  face_x :: rat
  face_y :: rat
  face_width :: rat
  face_height :: rat

text \<open>Of an \<^verbatim>\<open>HTMLImageElement\<close> the code reads the natural size only.\<close>

record HTMLImageElement =
  naturalWidth :: nat
  naturalHeight :: nat

text \<open>The four locals \<^verbatim>\<open>x, y, w, h\<close> that \<^verbatim>\<open>cropFaces\<close> computes for one face.\<close>

record Crop =
  crop_x :: rat
  crop_y :: rat
  crop_w :: rat
  crop_h :: rat

text \<open>
  The body of the callback of \<^verbatim>\<open>faces.map\<close> in \<^verbatim>\<open>cropFaces\<close>, up to the canvas calls:
  \<^verbatim>\<open>
    const padding = Math.max(face.width, face.height) * 0.25;
    const x = Math.max(0, Math.round(face.x - padding));
    const y = Math.max(0, Math.round(face.y - padding));
    const w = Math.min(img.naturalWidth - x, Math.round(face.width + padding * 2));
    const h = Math.min(img.naturalHeight - y, Math.round(face.height + padding * 2));
  \<close>
\<close>

definition facePadding :: "FaceRect \<Rightarrow> rat" where
  "facePadding face = max (face_width face) (face_height face) * (1 / 4)"

definition cropRegion :: "HTMLImageElement \<Rightarrow> FaceRect \<Rightarrow> Crop" where
  "cropRegion img face =
     (let padding = facePadding face;
          x = max 0 (Math_round (face_x face - padding));
          y = max 0 (Math_round (face_y face - padding));
          w = min (of_nat (naturalWidth img) - x) (Math_round (face_width face + padding * 2));
          h = min (of_nat (naturalHeight img) - y) (Math_round (face_height face + padding * 2))
      in \<lparr>crop_x = x, crop_y = y, crop_w = w, crop_h = h\<rparr>)"

text \<open>
  The string that \<^verbatim>\<open>canvas.toDataURL("image/png")\<close> returns after
  \<^verbatim>\<open>ctx.drawImage(img, x, y, w, h, 0, 0, w, h)\<close> on a canvas of size \<open>w \<times> h\<close> is a function of
  the image and of the region; the encoder itself belongs to the browser, so the string is
  kept symbolic.
\<close>

datatype DataURL = PngOf HTMLImageElement Crop

text \<open>The value of \<^verbatim>\<open>canvas.getContext("2d")\<close>: a context, or \<^verbatim>\<open>null\<close>.\<close>

datatype CanvasRenderingContext2D = Context2D

text \<open>
  \<^verbatim>\<open>
  function cropFaces(img, faces) {
    const canvas = document.createElement("canvas");
    const ctx = canvas.getContext("2d");
    if (!ctx) return [];
    return faces.map((face) => { ...; return canvas.toDataURL("image/png"); });
  }
  \<close>
  The first argument is what \<^verbatim>\<open>getContext\<close> returns in this call.
\<close>

definition cropFaces ::
  "CanvasRenderingContext2D option \<Rightarrow> HTMLImageElement \<Rightarrow> FaceRect list \<Rightarrow> DataURL list" where
  "cropFaces ctx img faces =
     (case ctx of
        None \<Rightarrow> []
      | Some c \<Rightarrow> map (\<lambda>face. PngOf img (cropRegion img face)) faces)"

subsection \<open>The padded box and its clamping, taken apart\<close>





section \<open>The detector adapters\<close>

text \<open>
  A value that JavaScript code throws, or a promise is rejected with: an \<^verbatim>\<open>Error\<close> with its
  message, or anything else (OpenCV.js throws plain numbers). \<^verbatim>\<open>reason?.message\<close> is
  \<^verbatim>\<open>undefined\<close> for the latter.
\<close>

datatype JsValue = JsError string | JsOther

fun message :: "JsValue \<Rightarrow> string option" where
  "message (JsError m) = Some m"
| "message JsOther = None"

text \<open>\<^verbatim>\<open>interface DetectionResult { faces; croppedFaces; processingTime }\<close>\<close>

record DetectionResult =
  faces :: "FaceRect list"
  croppedFaces :: "DataURL list"
  processingTime :: rat

record OpenCVParams =
  scaleFactor :: rat
  minNeighbors :: rat
  minSize :: rat

record FaceApiParams =
  inputSize :: rat
  scoreThreshold :: rat

subsection \<open>The classical detector: OpenCV.js\<close>

text \<open>An element of the engine's \<^verbatim>\<open>cv.RectVector\<close>: a \<^verbatim>\<open>cv::Rect\<close>, four C++ \<^verbatim>\<open>int\<close>s.\<close>

record CvRect =
  cv_x :: int
  cv_y :: int
  cv_width :: int
  cv_height :: int

text \<open>
  The engine and the browser are not part of the repository. What they answer during one
  invocation of \<^verbatim>\<open>detectWithOpenCV\<close> is a parameter of the model: the two canvas contexts,
  the two readings of \<^verbatim>\<open>performance.now()\<close>, whether each engine call that works on pixel
  data throws (\<open>Some\<close> the thrown value), and the rectangles that
  \<^verbatim>\<open>classifier.detectMultiScale\<close> writes into \<^verbatim>\<open>faces\<close>. The constructors
  \<^verbatim>\<open>new cv.Mat()\<close>, \<^verbatim>\<open>new cv.RectVector()\<close>, \<^verbatim>\<open>new cv.CascadeClassifier()\<close> and
  \<^verbatim>\<open>classifier.load\<close>, whose result the code ignores, are taken to return normally.
\<close>

record OpenCVCall =
  ocv_tmpCtx :: "CanvasRenderingContext2D option"
  ocv_startTime :: rat
  ocv_imread :: "JsValue option"
  ocv_cvtColor :: "JsValue option"
  ocv_equalizeHist :: "JsValue option"
  ocv_detectMultiScale :: "OpenCVParams \<Rightarrow> JsValue + CvRect list"
  ocv_endTime :: rat
  ocv_cropCtx :: "CanvasRenderingContext2D option"

text \<open>
  The engine's native objects that \<^verbatim>\<open>detectWithOpenCV\<close> holds in \<^verbatim>\<open>mat\<close>, \<^verbatim>\<open>gray\<close>,
  \<^verbatim>\<open>faces\<close> and \<^verbatim>\<open>classifier\<close>. The engine frees one only when \<^verbatim>\<open>.delete()\<close> is called
  on it; the heap is the log of both kinds of call.
\<close>

datatype NativeObject = MatObj | GrayObj | FacesObj | ClassifierObj

record NativeHeap =
  created :: "NativeObject list"
  deleted :: "NativeObject list"

definition create :: "NativeObject \<Rightarrow> NativeHeap \<Rightarrow> NativeHeap" where
  "create obj heap = heap\<lparr>created := created heap @ [obj]\<rparr>"

definition delete :: "NativeObject \<Rightarrow> NativeHeap \<Rightarrow> NativeHeap" where
  "delete obj heap = heap\<lparr>deleted := deleted heap @ [obj]\<rparr>"

text \<open>The number of objects of one kind that were created and not deleted.\<close>

definition leaked :: "NativeHeap \<Rightarrow> NativeObject \<Rightarrow> int" where
  "leaked heap obj = int (count_list (created heap) obj) - int (count_list (deleted heap) obj)"

text \<open>
  \<^verbatim>\<open>
  const faceRects = [];
  for (let i = 0; i < faces.size(); i++) {
    const face = faces.get(i);
    faceRects.push({ x: face.x, y: face.y, width: face.width, height: face.height });
  }
  \<close>
\<close>

primrec extractFaceRects :: "CvRect list \<Rightarrow> FaceRect list" where
  "extractFaceRects [] = []"
| "extractFaceRects (face # rest) =
     \<lparr>face_x = of_int (cv_x face), face_y = of_int (cv_y face),
      face_width = of_int (cv_width face), face_height = of_int (cv_height face)\<rparr>
     # extractFaceRects rest"

text \<open>
  \<^verbatim>\<open>detectWithOpenCV(imgElement, params)\<close>, statement by statement. A thrown value leaves the
  function at once (\<open>Inl\<close>); there is no \<^verbatim>\<open>try\<close> in the function. The non-null assertion
  \<^verbatim>\<open>getContext("2d")!\<close> checks nothing at run time, so \<^verbatim>\<open>tmpCtx.drawImage\<close> on \<^verbatim>\<open>null\<close>
  throws a \<^verbatim>\<open>TypeError\<close>.
\<close>

definition detectWithOpenCV ::
  "OpenCVCall \<Rightarrow> HTMLImageElement \<Rightarrow> OpenCVParams \<Rightarrow> NativeHeap
     \<Rightarrow> (JsValue + DetectionResult) \<times> NativeHeap" where
  "detectWithOpenCV cv imgElement params heap0 =
     (let startTime = ocv_startTime cv in
      case ocv_tmpCtx cv of
        None \<Rightarrow> (Inl (JsError ''TypeError''), heap0)
      | Some tmpCtx \<Rightarrow>
     (case ocv_imread cv of
        Some e \<Rightarrow> (Inl e, heap0)
      | None \<Rightarrow>
     (let heap1 = create MatObj heap0;
          heap2 = create GrayObj heap1 in
      case ocv_cvtColor cv of
        Some e \<Rightarrow> (Inl e, heap2)
      | None \<Rightarrow>
     (case ocv_equalizeHist cv of
        Some e \<Rightarrow> (Inl e, heap2)
      | None \<Rightarrow>
     (let heap3 = create FacesObj heap2;
          heap4 = create ClassifierObj heap3 in
      case ocv_detectMultiScale cv params of
        Inl e \<Rightarrow> (Inl e, heap4)
      | Inr rects \<Rightarrow>
     (let endTime = ocv_endTime cv;
          faceRects = extractFaceRects rects;
          cropped = cropFaces (ocv_cropCtx cv) imgElement faceRects;
          heap5 = delete MatObj heap4;
          heap6 = delete GrayObj heap5;
          heap7 = delete FacesObj heap6;
          heap8 = delete ClassifierObj heap7
      in (Inr \<lparr>faces = faceRects, croppedFaces = cropped,
                processingTime = endTime - startTime\<rparr>, heap8)))))))"

subsection \<open>The neural detector: face-api.js\<close>

text \<open>The \<^verbatim>\<open>box\<close> of one detection of the engine: four numbers.\<close>

record Box =
  box_x :: rat
  box_y :: rat
  box_width :: rat
  box_height :: rat

text \<open>
  What the engine and the browser answer during one invocation of \<^verbatim>\<open>detectWithFaceApi\<close>:
  the promise of \<^verbatim>\<open>faceapi.detectAllFaces\<close> is rejected (\<open>Inl\<close>) or fulfilled with the
  detections.
\<close>

record FaceApiCall =
  fa_startTime :: rat
  fa_detectAllFaces :: "FaceApiParams \<Rightarrow> JsValue + Box list"
  fa_endTime :: rat
  fa_cropCtx :: "CanvasRenderingContext2D option"

text \<open>
  \<^verbatim>\<open>
  const faceRects = detections.map((d) => ({
    x: Math.round(d.box.x), y: Math.round(d.box.y),
    width: Math.round(d.box.width), height: Math.round(d.box.height) }));
  \<close>
\<close>

definition roundBox :: "Box \<Rightarrow> FaceRect" where
  "roundBox d =
     \<lparr>face_x = Math_round (box_x d), face_y = Math_round (box_y d),
      face_width = Math_round (box_width d), face_height = Math_round (box_height d)\<rparr>"

definition detectWithFaceApi ::
  "FaceApiCall \<Rightarrow> HTMLImageElement \<Rightarrow> FaceApiParams \<Rightarrow> JsValue + DetectionResult" where
  "detectWithFaceApi fa imgElement params =
     (let startTime = fa_startTime fa in
      case fa_detectAllFaces fa params of
        Inl e \<Rightarrow> Inl e
      | Inr detections \<Rightarrow>
          (let endTime = fa_endTime fa;
               faceRects = map roundBox detections;
               cropped = cropFaces (fa_cropCtx fa) imgElement faceRects
           in Inr \<lparr>faces = faceRects, croppedFaces = cropped,
                    processingTime = endTime - startTime\<rparr>))"

text \<open>
  The data model of the specification asks of a \<^verbatim>\<open>FaceRect\<close> that its four fields are
  non-negative integers.
\<close>

definition nonneg_integer :: "rat \<Rightarrow> bool" where
  "nonneg_integer q \<longleftrightarrow> q = of_int \<lfloor>q\<rfloor> \<and> 0 \<le> q"

definition spec_FaceRect :: "FaceRect \<Rightarrow> bool" where
  "spec_FaceRect r \<longleftrightarrow>
     nonneg_integer (face_x r) \<and> nonneg_integer (face_y r)
     \<and> nonneg_integer (face_width r) \<and> nonneg_integer (face_height r)"

text \<open>What the adapters do guarantee, and what they pass on from the engines.\<close>

definition is_integer :: "rat \<Rightarrow> bool" where
  "is_integer q \<longleftrightarrow> q = of_int \<lfloor>q\<rfloor>"

definition integer_FaceRect :: "FaceRect \<Rightarrow> bool" where
  "integer_FaceRect r \<longleftrightarrow>
     is_integer (face_x r) \<and> is_integer (face_y r)
     \<and> is_integer (face_width r) \<and> is_integer (face_height r)"

definition nonneg_CvRect :: "CvRect \<Rightarrow> bool" where
  "nonneg_CvRect c \<longleftrightarrow> 0 \<le> cv_x c \<and> 0 \<le> cv_y c \<and> 0 \<le> cv_width c \<and> 0 \<le> cv_height c"

definition roundsNonneg :: "Box \<Rightarrow> bool" where
  "roundsNonneg d \<longleftrightarrow>
     - (1 / 2) \<le> box_x d \<and> - (1 / 2) \<le> box_y d
     \<and> - (1 / 2) \<le> box_width d \<and> - (1 / 2) \<le> box_height d"

section \<open>The comparison orchestrator\<close>

datatype LibraryStatus = Loading | Ready | Error

text \<open>The React state of \<^verbatim>\<open>FaceDetectionApp\<close> that \<^verbatim>\<open>runDetection\<close> writes.\<close>

record UIState =
  opencvResult :: "DetectionResult option"
  faceApiResult :: "DetectionResult option"
  isDetecting :: bool
  opencvError :: "string option"
  faceApiError :: "string option"

text \<open>\<^verbatim>\<open>reason?.message || "Detection failed"\<close>: an absent or empty message is falsy.\<close>

definition reasonMessage :: "JsValue \<Rightarrow> string" where
  "reasonMessage reason =
     (case message reason of
        None \<Rightarrow> ''Detection failed''
      | Some m \<Rightarrow> if m = [] then ''Detection failed'' else m)"

text \<open>
  The first branch handed to \<^verbatim>\<open>Promise.allSettled\<close>:
  \<^verbatim>\<open>
  (async () => {
    if (opencvStatus !== "ready") throw new Error("OpenCV not loaded");
    return detectWithOpenCV(img, opencvParams);
  })()
  \<close>
  and the second one, for face-api.js. \<^verbatim>\<open>allSettled\<close> turns a thrown value into a rejected
  entry and a returned one into a fulfilled entry, for each branch by itself.
\<close>

definition opencvBranch ::
  "LibraryStatus \<Rightarrow> OpenCVCall \<Rightarrow> HTMLImageElement \<Rightarrow> OpenCVParams \<Rightarrow> NativeHeap
     \<Rightarrow> (JsValue + DetectionResult) \<times> NativeHeap" where
  "opencvBranch opencvStatus cv img opencvParams heap =
     (if opencvStatus \<noteq> Ready then (Inl (JsError ''OpenCV not loaded''), heap)
      else detectWithOpenCV cv img opencvParams heap)"

definition faceApiBranch ::
  "LibraryStatus \<Rightarrow> FaceApiCall \<Rightarrow> HTMLImageElement \<Rightarrow> FaceApiParams
     \<Rightarrow> JsValue + DetectionResult" where
  "faceApiBranch faceApiStatus fa img faceApiParams =
     (if faceApiStatus \<noteq> Ready then Inl (JsError ''face-api.js not loaded'')
      else detectWithFaceApi fa img faceApiParams)"

text \<open>
  \<^verbatim>\<open>runDetection\<close>. Its first argument is \<^verbatim>\<open>imageRef.current\<close>; without an image the
  callback returns before it touches the state.
\<close>

definition runDetection ::
  "HTMLImageElement option \<Rightarrow> LibraryStatus \<Rightarrow> LibraryStatus \<Rightarrow> OpenCVParams \<Rightarrow> FaceApiParams
     \<Rightarrow> OpenCVCall \<Rightarrow> FaceApiCall \<Rightarrow> UIState \<times> NativeHeap \<Rightarrow> UIState \<times> NativeHeap" where
  "runDetection imageRef opencvStatus faceApiStatus opencvParams faceApiParams cv fa state =
     (case imageRef of
        None \<Rightarrow> state
      | Some img \<Rightarrow>
          (let st1 = (fst state)\<lparr>isDetecting := True, opencvResult := None, faceApiResult := None,
                                 opencvError := None, faceApiError := None\<rparr>;
               opencvSettled = opencvBranch opencvStatus cv img opencvParams (snd state);
               faceApiRes = faceApiBranch faceApiStatus fa img faceApiParams;
               st2 = (case fst opencvSettled of
                        Inr v \<Rightarrow> st1\<lparr>opencvResult := Some v\<rparr>
                      | Inl reason \<Rightarrow> st1\<lparr>opencvError := Some (reasonMessage reason)\<rparr>);
               st3 = (case faceApiRes of
                        Inr v \<Rightarrow> st2\<lparr>faceApiResult := Some v\<rparr>
                      | Inl reason \<Rightarrow> st2\<lparr>faceApiError := Some (reasonMessage reason)\<rparr>)
           in (st3\<lparr>isDetecting := False\<rparr>, snd opencvSettled)))"

subsection \<open>What the result section renders\<close>

text \<open>
  One engine's panel:
  \<^verbatim>\<open>
  {opencvError ? <p>{opencvError}</p>
   : opencvResult ? <> time, count, canvas,
       {opencvResult.croppedFaces.length > 0 && ( ...thumbnails... )}
       {opencvResult.faces.length === 0 && <p>No faces detected</p>} </>
   : null}
  \<close>
\<close>

datatype PanelView =
    ErrorText string
  | ResultPanel rat nat "DataURL list option" bool
  | EmptyPanel

fun showsNoFacesDetected :: "PanelView \<Rightarrow> bool" where
  "showsNoFacesDetected (ResultPanel t n thumbs noFaces) = noFaces"
| "showsNoFacesDetected v = False"

fun showsError :: "PanelView \<Rightarrow> bool" where
  "showsError (ErrorText e) = True"
| "showsError v = False"

definition truthy :: "string option \<Rightarrow> bool" where
  "truthy s = (case s of None \<Rightarrow> False | Some t \<Rightarrow> t \<noteq> [])"

definition resultPanel :: "DetectionResult option \<Rightarrow> PanelView" where
  "resultPanel res =
     (case res of
        None \<Rightarrow> EmptyPanel
      | Some r \<Rightarrow>
          ResultPanel (processingTime r) (length (faces r))
            (if length (croppedFaces r) > 0 then Some (croppedFaces r) else None)
            (length (faces r) = 0))"

definition renderPanel :: "string option \<Rightarrow> DetectionResult option \<Rightarrow> PanelView" where
  "renderPanel err res =
     (case err of
        None \<Rightarrow> resultPanel res
      | Some e \<Rightarrow> if e \<noteq> [] then ErrorText e else resultPanel res)"

text \<open>
  The section with both panels is rendered when
  \<^verbatim>\<open>opencvResult || faceApiResult || opencvError || faceApiError\<close> is truthy.
\<close>

definition renderResults :: "UIState \<Rightarrow> (PanelView \<times> PanelView) option" where
  "renderResults st =
     (if opencvResult st \<noteq> None \<or> faceApiResult st \<noteq> None
         \<or> truthy (opencvError st) \<or> truthy (faceApiError st)
      then Some (renderPanel (opencvError st) (opencvResult st),
                 renderPanel (faceApiError st) (faceApiResult st))
      else None)"

section \<open>The script loader\<close>













section \<open>Concrete inputs\<close>

text \<open>The initial values of the component's \<^verbatim>\<open>useState\<close> calls.\<close>

definition defaultOpencvParams :: OpenCVParams where
  "defaultOpencvParams = \<lparr>scaleFactor = 11 / 10, minNeighbors = 9, minSize = 80\<rparr>"

definition defaultFaceApiParams :: FaceApiParams where
  "defaultFaceApiParams = \<lparr>inputSize = 704, scoreThreshold = 3 / 10\<rparr>"

definition initialUIState :: UIState where
  "initialUIState =
     \<lparr>opencvResult = None, faceApiResult = None, isDetecting = False,
      opencvError = None, faceApiError = None\<rparr>"

definition emptyHeap :: NativeHeap where
  "emptyHeap = \<lparr>created = [], deleted = []\<rparr>"

definition image100 :: HTMLImageElement where
  "image100 = \<lparr>naturalWidth = 100, naturalHeight = 100\<rparr>"

text \<open>An invocation in which the cascade finds the face \<open>{40, 40, 20, 20}\<close>.\<close>

definition oneFaceOpenCV :: OpenCVCall where
  "oneFaceOpenCV =
     \<lparr>ocv_tmpCtx = Some Context2D, ocv_startTime = 10, ocv_imread = None,
      ocv_cvtColor = None, ocv_equalizeHist = None,
      ocv_detectMultiScale =
        (\<lambda>params. Inr [\<lparr>cv_x = 40, cv_y = 40, cv_width = 20, cv_height = 20\<rparr>]),
      ocv_endTime = 25, ocv_cropCtx = Some Context2D\<rparr>"

text \<open>An invocation in which the cascade finds nothing.\<close>

definition noFaceOpenCV :: OpenCVCall where
  "noFaceOpenCV =
     \<lparr>ocv_tmpCtx = Some Context2D, ocv_startTime = 10, ocv_imread = None,
      ocv_cvtColor = None, ocv_equalizeHist = None,
      ocv_detectMultiScale = (\<lambda>params. Inr []),
      ocv_endTime = 25, ocv_cropCtx = Some Context2D\<rparr>"

text \<open>
  An invocation in which \<^verbatim>\<open>classifier.detectMultiScale\<close> throws, as OpenCV.js does with the
  number of a C++ exception, for instance when the engine's heap is exhausted.
\<close>

definition throwingOpenCV :: OpenCVCall where
  "throwingOpenCV =
     \<lparr>ocv_tmpCtx = Some Context2D, ocv_startTime = 10, ocv_imread = None,
      ocv_cvtColor = None, ocv_equalizeHist = None,
      ocv_detectMultiScale = (\<lambda>params. Inl JsOther),
      ocv_endTime = 25, ocv_cropCtx = Some Context2D\<rparr>"

text \<open>
  An invocation in which the network reports a face that reaches over the left border of
  the image: the engine does not clip its boxes to the image.
\<close>

definition borderFaceApi :: FaceApiCall where
  "borderFaceApi =
     \<lparr>fa_startTime = 30,
      fa_detectAllFaces =
        (\<lambda>params. Inr [\<lparr>box_x = - (16 / 5), box_y = 121 / 10,
                          box_width = 503 / 10, box_height = 50\<rparr>]),
      fa_endTime = 72, fa_cropCtx = Some Context2D\<rparr>"

definition noFaceFaceApi :: FaceApiCall where
  "noFaceFaceApi =
     \<lparr>fa_startTime = 30, fa_detectAllFaces = (\<lambda>params. Inr []),
      fa_endTime = 72, fa_cropCtx = Some Context2D\<rparr>"

section \<open>Properties of the crop\<close>



text \<open>
  C5. In a 100 by 100 image the face rectangle \<open>{x: 40, y: 40, width: 20, height: 20}\<close> gets
  the padding 5 and the crop region \<open>{x: 35, y: 35, w: 30, h: 30}\<close>.
\<close>

theorem cropRegion_example_100:
  "facePadding \<lparr>face_x = 40, face_y = 40, face_width = 20, face_height = 20\<rparr> = 5
   \<and> cropRegion \<lparr>naturalWidth = 100, naturalHeight = 100\<rparr>
        \<lparr>face_x = 40, face_y = 40, face_width = 20, face_height = 20\<rparr>
      = \<lparr>crop_x = 35, crop_y = 35, crop_w = 30, crop_h = 30\<rparr>"
  by code_simp

text \<open>
  C10. When no 2D drawing context can be obtained, \<^verbatim>\<open>cropFaces\<close> returns the empty list,
  whatever the list of rectangles is; it has no failing branch.
\<close>

theorem cropFaces_without_context: "cropFaces None img rects = []"
  by (simp add: cropFaces_def)

subsection \<open>The padding\<close>









section \<open>Properties of the adapters\<close>

lemma extractFaceRects_map:
  "extractFaceRects rects =
   map (\<lambda>face. \<lparr>face_x = of_int (cv_x face), face_y = of_int (cv_y face),
      face_width = of_int (cv_width face), face_height = of_int (cv_height face)\<rparr>) rects"
  by (induction rects) simp_all

text \<open>What a returned result of either adapter is made of.\<close>

lemma detectWithOpenCV_Inr:
  assumes "detectWithOpenCV cv img params heap = (Inr r, heap')"
  shows "\<exists>rects. ocv_detectMultiScale cv params = Inr rects
           \<and> faces r = extractFaceRects rects
           \<and> croppedFaces r = cropFaces (ocv_cropCtx cv) img (faces r)
           \<and> processingTime r = ocv_endTime cv - ocv_startTime cv"
  using assms
  by (auto simp: detectWithOpenCV_def Let_def split: option.splits sum.splits)

lemma detectWithFaceApi_Inr:
  assumes "detectWithFaceApi fa img params = Inr r"
  shows "\<exists>detections. fa_detectAllFaces fa params = Inr detections
           \<and> faces r = map roundBox detections
           \<and> croppedFaces r = cropFaces (fa_cropCtx fa) img (faces r)
           \<and> processingTime r = fa_endTime fa - fa_startTime fa"
  using assms
  by (auto simp: detectWithFaceApi_def Let_def split: sum.splits)

lemma cropFaces_Some:
  "cropFaces (Some ctx) img rects = map (\<lambda>face. PngOf img (cropRegion img face)) rects"
  by (simp add: cropFaces_def)

text \<open>
  C9. With a drawing context, \<^verbatim>\<open>cropFaces\<close> returns one image for each rectangle, in the
  order of the rectangles, image \<open>i\<close> being the crop of rectangle \<open>i\<close>; so in the result of
  either adapter \<^verbatim>\<open>croppedFaces\<close> is as long as \<^verbatim>\<open>faces\<close> and matches it index by index.
\<close>

theorem cropFaces_one_per_rect:
  "length (cropFaces (Some ctx) img rects) = length rects
   \<and> (\<forall>i < length rects.
         cropFaces (Some ctx) img rects ! i = PngOf img (cropRegion img (rects ! i)))
   \<and> (ocv_cropCtx cv = Some ctx \<and> detectWithOpenCV cv img params heap = (Inr r, heap')
        \<longrightarrow> length (croppedFaces r) = length (faces r)
            \<and> (\<forall>i < length (faces r).
                  croppedFaces r ! i = PngOf img (cropRegion img (faces r ! i))))
   \<and> (fa_cropCtx fa = Some ctx \<and> detectWithFaceApi fa img fparams = Inr r'
        \<longrightarrow> length (croppedFaces r') = length (faces r')
            \<and> (\<forall>i < length (faces r').
                  croppedFaces r' ! i = PngOf img (cropRegion img (faces r' ! i))))"
proof (intro conjI impI)
  show "length (cropFaces (Some ctx) img rects) = length rects"
    by (simp add: cropFaces_Some)
  show "\<forall>i < length rects.
         cropFaces (Some ctx) img rects ! i = PngOf img (cropRegion img (rects ! i))"
    by (simp add: cropFaces_Some)
next
  assume "ocv_cropCtx cv = Some ctx \<and> detectWithOpenCV cv img params heap = (Inr r, heap')"
  then have c: "croppedFaces r = cropFaces (Some ctx) img (faces r)"
    using detectWithOpenCV_Inr [of cv img params heap r heap'] by auto
  show "length (croppedFaces r) = length (faces r)"
    by (simp add: c cropFaces_Some)
  show "\<forall>i < length (faces r). croppedFaces r ! i = PngOf img (cropRegion img (faces r ! i))"
    by (simp add: c cropFaces_Some)
next
  assume "fa_cropCtx fa = Some ctx \<and> detectWithFaceApi fa img fparams = Inr r'"
  then have c: "croppedFaces r' = cropFaces (Some ctx) img (faces r')"
    using detectWithFaceApi_Inr [of fa img fparams r'] by auto
  show "length (croppedFaces r') = length (faces r')"
    by (simp add: c cropFaces_Some)
  show "\<forall>i < length (faces r'). croppedFaces r' ! i = PngOf img (cropRegion img (faces r' ! i))"
    by (simp add: c cropFaces_Some)
qed

theorem cropFaces_one_per_rect_witness:
  "ocv_cropCtx oneFaceOpenCV = Some Context2D
   \<and> detectWithOpenCV oneFaceOpenCV image100 defaultOpencvParams emptyHeap
       = (Inr \<lparr>faces = [\<lparr>face_x = 40, face_y = 40, face_width = 20, face_height = 20\<rparr>],
         croppedFaces = [PngOf image100 \<lparr>crop_x = 35, crop_y = 35, crop_w = 30, crop_h = 30\<rparr>],
         processingTime = 15\<rparr>,
          \<lparr>created = [MatObj, GrayObj, FacesObj, ClassifierObj],
        deleted = [MatObj, GrayObj, FacesObj, ClassifierObj]\<rparr>)
   \<and> length (croppedFaces \<lparr>faces = [\<lparr>face_x = 40, face_y = 40, face_width = 20, face_height = 20\<rparr>],
         croppedFaces = [PngOf image100 \<lparr>crop_x = 35, crop_y = 35, crop_w = 30, crop_h = 30\<rparr>],
         processingTime = 15\<rparr>)
       = length (faces \<lparr>faces = [\<lparr>face_x = 40, face_y = 40, face_width = 20, face_height = 20\<rparr>],
         croppedFaces = [PngOf image100 \<lparr>crop_x = 35, crop_y = 35, crop_w = 30, crop_h = 30\<rparr>],
         processingTime = 15\<rparr>)
   \<and> fa_cropCtx borderFaceApi = Some Context2D
   \<and> detectWithFaceApi borderFaceApi image100 defaultFaceApiParams
       = Inr \<lparr>faces = [\<lparr>face_x = - 3, face_y = 12, face_width = 50, face_height = 50\<rparr>],
         croppedFaces = [PngOf image100 \<lparr>crop_x = 0, crop_y = 0, crop_w = 75, crop_h = 75\<rparr>],
         processingTime = 42\<rparr>
   \<and> length (croppedFaces \<lparr>faces = [\<lparr>face_x = - 3, face_y = 12, face_width = 50, face_height = 50\<rparr>],
         croppedFaces = [PngOf image100 \<lparr>crop_x = 0, crop_y = 0, crop_w = 75, crop_h = 75\<rparr>],
         processingTime = 42\<rparr>)
       = length (faces \<lparr>faces = [\<lparr>face_x = - 3, face_y = 12, face_width = 50, face_height = 50\<rparr>],
         croppedFaces = [PngOf image100 \<lparr>crop_x = 0, crop_y = 0, crop_w = 75, crop_h = 75\<rparr>],
         processingTime = 42\<rparr>)"
proof -
  have c1: "ocv_cropCtx oneFaceOpenCV = Some Context2D"
    by (simp add: oneFaceOpenCV_def)
  have e1: "detectWithOpenCV oneFaceOpenCV image100 defaultOpencvParams emptyHeap
       = (Inr \<lparr>faces = [\<lparr>face_x = 40, face_y = 40, face_width = 20, face_height = 20\<rparr>],
         croppedFaces = [PngOf image100 \<lparr>crop_x = 35, crop_y = 35, crop_w = 30, crop_h = 30\<rparr>],
         processingTime = 15\<rparr>,
          \<lparr>created = [MatObj, GrayObj, FacesObj, ClassifierObj],
        deleted = [MatObj, GrayObj, FacesObj, ClassifierObj]\<rparr>)"
    by code_simp
  have c2: "fa_cropCtx borderFaceApi = Some Context2D"
    by (simp add: borderFaceApi_def)
  have e2: "detectWithFaceApi borderFaceApi image100 defaultFaceApiParams
       = Inr \<lparr>faces = [\<lparr>face_x = - 3, face_y = 12, face_width = 50, face_height = 50\<rparr>],
         croppedFaces = [PngOf image100 \<lparr>crop_x = 0, crop_y = 0, crop_w = 75, crop_h = 75\<rparr>],
         processingTime = 42\<rparr>"
    by code_simp
  from cropFaces_one_per_rect [where ctx = Context2D and img = image100 and rects = "[]"
      and cv = oneFaceOpenCV and params = defaultOpencvParams and heap = emptyHeap
      and r = "\<lparr>faces = [\<lparr>face_x = 40, face_y = 40, face_width = 20, face_height = 20\<rparr>],
         croppedFaces = [PngOf image100 \<lparr>crop_x = 35, crop_y = 35, crop_w = 30, crop_h = 30\<rparr>],
         processingTime = 15\<rparr>"
      and heap' = "\<lparr>created = [MatObj, GrayObj, FacesObj, ClassifierObj],
        deleted = [MatObj, GrayObj, FacesObj, ClassifierObj]\<rparr>"
      and fa = borderFaceApi and fparams = defaultFaceApiParams
      and r' = "\<lparr>faces = [\<lparr>face_x = - 3, face_y = 12, face_width = 50, face_height = 50\<rparr>],
         croppedFaces = [PngOf image100 \<lparr>crop_x = 0, crop_y = 0, crop_w = 75, crop_h = 75\<rparr>],
         processingTime = 42\<rparr>"]
  show ?thesis
    using c1 e1 c2 e2 by simp
qed

subsection \<open>The rectangles of the adapters\<close>

lemma is_integer_Math_round: "is_integer (Math_round q)"
  by (simp add: is_integer_def Math_round_def)

lemma Math_round_nonneg_iff: "0 \<le> Math_round q \<longleftrightarrow> - (1 / 2) \<le> q"
proof -
  have "0 \<le> Math_round q \<longleftrightarrow> (0::int) \<le> \<lfloor>q + 1 / 2\<rfloor>"
    by (simp add: Math_round_def)
  also have "\<dots> \<longleftrightarrow> 0 \<le> q + 1 / 2"
    by (simp add: zero_le_floor)
  also have "\<dots> \<longleftrightarrow> - (1 / 2) \<le> q"
    by linarith
  finally show ?thesis .
qed

lemma nonneg_integer_Math_round: "nonneg_integer (Math_round q) \<longleftrightarrow> - (1 / 2) \<le> q"
  using Math_round_nonneg_iff [of q] by (simp add: nonneg_integer_def Math_round_def)

lemma nonneg_integer_of_int: "nonneg_integer (of_int n) \<longleftrightarrow> 0 \<le> n"
  by (simp add: nonneg_integer_def)

lemma spec_FaceRect_roundBox: "spec_FaceRect (roundBox d) \<longleftrightarrow> roundsNonneg d"
  by (simp add: spec_FaceRect_def roundBox_def nonneg_integer_Math_round roundsNonneg_def)

lemma integer_roundBox: "integer_FaceRect (roundBox d)"
  by (simp add: integer_FaceRect_def roundBox_def is_integer_Math_round)

lemma extractFaceRects_integer: "list_all integer_FaceRect (extractFaceRects rects)"
  by (induction rects) (simp_all add: integer_FaceRect_def is_integer_def)

lemma extractFaceRects_spec:
  "list_all spec_FaceRect (extractFaceRects rects) \<longleftrightarrow> list_all nonneg_CvRect rects"
  by (induction rects) (simp_all add: spec_FaceRect_def nonneg_integer_of_int nonneg_CvRect_def)

text \<open>
  C7, as the specification states it: every rectangle of an adapter has four non-negative
  integer fields. The neural adapter rounds what the engine reports and clamps nothing:
  for a box that starts at \<open>x = -3.2\<close>, left of the image, it yields \<open>x = -3\<close>.
\<close>

theorem detectWithFaceApi_negative_counterexample:
  "detectWithFaceApi borderFaceApi image100 defaultFaceApiParams
     = Inr \<lparr>faces = [\<lparr>face_x = - 3, face_y = 12, face_width = 50, face_height = 50\<rparr>],
         croppedFaces = [PngOf image100 \<lparr>crop_x = 0, crop_y = 0, crop_w = 75, crop_h = 75\<rparr>],
         processingTime = 42\<rparr>
   \<and> \<not> list_all spec_FaceRect
         (faces \<lparr>faces = [\<lparr>face_x = - 3, face_y = 12, face_width = 50, face_height = 50\<rparr>],
         croppedFaces = [PngOf image100 \<lparr>crop_x = 0, crop_y = 0, crop_w = 75, crop_h = 75\<rparr>],
         processingTime = 42\<rparr>)"
  by code_simp

text \<open>
  C7, amended. Every rectangle of either adapter has four integer fields: the neural
  adapter's are the fields of the engine's box rounded by \<^verbatim>\<open>Math.round\<close>, the classical
  adapter's are the fields of the engine's rectangle. The adapters clamp nothing: the
  rectangles of a result are all non-negative exactly when every field the neural engine
  reported is at least \<open>-1/2\<close>, and when every field the classical engine reported is at
  least 0.
\<close>

theorem adapters_integer_FaceRect:
  "(detectWithFaceApi fa img fparams = Inr r \<longrightarrow>
      (\<exists>detections. fa_detectAllFaces fa fparams = Inr detections
          \<and> faces r = map roundBox detections
          \<and> list_all integer_FaceRect (faces r)
          \<and> (list_all spec_FaceRect (faces r) \<longleftrightarrow> list_all roundsNonneg detections)))
   \<and> (detectWithOpenCV cv img params heap = (Inr r', heap') \<longrightarrow>
      (\<exists>rects. ocv_detectMultiScale cv params = Inr rects
          \<and> faces r' = extractFaceRects rects
          \<and> list_all integer_FaceRect (faces r')
          \<and> (list_all spec_FaceRect (faces r') \<longleftrightarrow> list_all nonneg_CvRect rects)))"
proof (intro conjI impI)
  assume "detectWithFaceApi fa img fparams = Inr r"
  then obtain detections where d: "fa_detectAllFaces fa fparams = Inr detections"
      "faces r = map roundBox detections"
    using detectWithFaceApi_Inr by blast
  have "list_all integer_FaceRect (map roundBox detections)"
    by (simp add: list_all_iff integer_roundBox)
  moreover have "list_all spec_FaceRect (map roundBox detections)
      \<longleftrightarrow> list_all roundsNonneg detections"
    by (simp add: list_all_iff spec_FaceRect_roundBox)
  ultimately show "\<exists>detections. fa_detectAllFaces fa fparams = Inr detections
          \<and> faces r = map roundBox detections
          \<and> list_all integer_FaceRect (faces r)
          \<and> (list_all spec_FaceRect (faces r) \<longleftrightarrow> list_all roundsNonneg detections)"
    using d by simp
next
  assume "detectWithOpenCV cv img params heap = (Inr r', heap')"
  then obtain rects where d: "ocv_detectMultiScale cv params = Inr rects"
      "faces r' = extractFaceRects rects"
    using detectWithOpenCV_Inr by blast
  then show "\<exists>rects. ocv_detectMultiScale cv params = Inr rects
          \<and> faces r' = extractFaceRects rects
          \<and> list_all integer_FaceRect (faces r')
          \<and> (list_all spec_FaceRect (faces r') \<longleftrightarrow> list_all nonneg_CvRect rects)"
    by (simp add: extractFaceRects_integer extractFaceRects_spec)
qed

theorem adapters_integer_FaceRect_witness:
  "detectWithFaceApi borderFaceApi image100 defaultFaceApiParams
     = Inr \<lparr>faces = [\<lparr>face_x = - 3, face_y = 12, face_width = 50, face_height = 50\<rparr>],
         croppedFaces = [PngOf image100 \<lparr>crop_x = 0, crop_y = 0, crop_w = 75, crop_h = 75\<rparr>],
         processingTime = 42\<rparr>
   \<and> list_all integer_FaceRect
       (faces \<lparr>faces = [\<lparr>face_x = - 3, face_y = 12, face_width = 50, face_height = 50\<rparr>],
         croppedFaces = [PngOf image100 \<lparr>crop_x = 0, crop_y = 0, crop_w = 75, crop_h = 75\<rparr>],
         processingTime = 42\<rparr>)
   \<and> detectWithOpenCV oneFaceOpenCV image100 defaultOpencvParams emptyHeap
       = (Inr \<lparr>faces = [\<lparr>face_x = 40, face_y = 40, face_width = 20, face_height = 20\<rparr>],
         croppedFaces = [PngOf image100 \<lparr>crop_x = 35, crop_y = 35, crop_w = 30, crop_h = 30\<rparr>],
         processingTime = 15\<rparr>,
          \<lparr>created = [MatObj, GrayObj, FacesObj, ClassifierObj],
        deleted = [MatObj, GrayObj, FacesObj, ClassifierObj]\<rparr>)
   \<and> list_all integer_FaceRect
       (faces \<lparr>faces = [\<lparr>face_x = 40, face_y = 40, face_width = 20, face_height = 20\<rparr>],
         croppedFaces = [PngOf image100 \<lparr>crop_x = 35, crop_y = 35, crop_w = 30, crop_h = 30\<rparr>],
         processingTime = 15\<rparr>)
   \<and> list_all spec_FaceRect
       (faces \<lparr>faces = [\<lparr>face_x = 40, face_y = 40, face_width = 20, face_height = 20\<rparr>],
         croppedFaces = [PngOf image100 \<lparr>crop_x = 35, crop_y = 35, crop_w = 30, crop_h = 30\<rparr>],
         processingTime = 15\<rparr>)"
proof -
  have e1: "detectWithOpenCV oneFaceOpenCV image100 defaultOpencvParams emptyHeap
       = (Inr \<lparr>faces = [\<lparr>face_x = 40, face_y = 40, face_width = 20, face_height = 20\<rparr>],
         croppedFaces = [PngOf image100 \<lparr>crop_x = 35, crop_y = 35, crop_w = 30, crop_h = 30\<rparr>],
         processingTime = 15\<rparr>,
          \<lparr>created = [MatObj, GrayObj, FacesObj, ClassifierObj],
        deleted = [MatObj, GrayObj, FacesObj, ClassifierObj]\<rparr>)"
    by code_simp
  have e2: "detectWithFaceApi borderFaceApi image100 defaultFaceApiParams
       = Inr \<lparr>faces = [\<lparr>face_x = - 3, face_y = 12, face_width = 50, face_height = 50\<rparr>],
         croppedFaces = [PngOf image100 \<lparr>crop_x = 0, crop_y = 0, crop_w = 75, crop_h = 75\<rparr>],
         processingTime = 42\<rparr>"
    by code_simp
  have d: "ocv_detectMultiScale oneFaceOpenCV defaultOpencvParams
       = Inr [\<lparr>cv_x = 40, cv_y = 40, cv_width = 20, cv_height = 20\<rparr>]"
    by (simp add: oneFaceOpenCV_def)
  from adapters_integer_FaceRect [where fa = borderFaceApi and img = image100
      and fparams = defaultFaceApiParams
      and r = "\<lparr>faces = [\<lparr>face_x = - 3, face_y = 12, face_width = 50, face_height = 50\<rparr>],
         croppedFaces = [PngOf image100 \<lparr>crop_x = 0, crop_y = 0, crop_w = 75, crop_h = 75\<rparr>],
         processingTime = 42\<rparr>"
      and cv = oneFaceOpenCV and params = defaultOpencvParams and heap = emptyHeap
      and r' = "\<lparr>faces = [\<lparr>face_x = 40, face_y = 40, face_width = 20, face_height = 20\<rparr>],
         croppedFaces = [PngOf image100 \<lparr>crop_x = 35, crop_y = 35, crop_w = 30, crop_h = 30\<rparr>],
         processingTime = 15\<rparr>"
      and heap' = "\<lparr>created = [MatObj, GrayObj, FacesObj, ClassifierObj],
        deleted = [MatObj, GrayObj, FacesObj, ClassifierObj]\<rparr>"]
  show ?thesis
    using e1 e2 d by (auto simp: nonneg_CvRect_def)
qed

subsection \<open>The native objects of the classical adapter\<close>

text \<open>On the path that returns, each of the four objects is created once and deleted once.\<close>

lemma detectWithOpenCV_releases_on_return:
  assumes "detectWithOpenCV cv img params heap = (Inr r, heap')"
  shows "created heap' = created heap @ [MatObj, GrayObj, FacesObj, ClassifierObj]
         \<and> deleted heap' = deleted heap @ [MatObj, GrayObj, FacesObj, ClassifierObj]
         \<and> leaked heap' obj = leaked heap obj"
proof -
  from assms have c: "created heap' = created heap @ [MatObj, GrayObj, FacesObj, ClassifierObj]"
    and d: "deleted heap' = deleted heap @ [MatObj, GrayObj, FacesObj, ClassifierObj]"
    by (auto simp: detectWithOpenCV_def Let_def create_def delete_def
          split: option.splits sum.splits)
  show ?thesis
    by (cases obj) (simp_all add: c d leaked_def)
qed

text \<open>On a path that throws, no object is deleted, whatever has been created.\<close>

lemma detectWithOpenCV_releases_nothing_on_throw:
  assumes "detectWithOpenCV cv img params heap = (Inl e, heap')"
  shows "deleted heap' = deleted heap
         \<and> (created heap' = created heap
            \<or> created heap' = created heap @ [MatObj, GrayObj]
            \<or> created heap' = created heap @ [MatObj, GrayObj, FacesObj, ClassifierObj])"
  using assms
  by (auto simp: detectWithOpenCV_def Let_def create_def delete_def
        split: option.splits sum.splits)

text \<open>
  C8. The claim asks that the image matrix, the grayscale matrix, the rectangle vector and
  the classifier are each released once on every path. When \<^verbatim>\<open>detectMultiScale\<close> throws,
  the four objects exist and the function is left before its four \<^verbatim>\<open>.delete()\<close> calls:
  nothing is released.
\<close>

theorem detectWithOpenCV_throw_leaks:
  "detectWithOpenCV throwingOpenCV image100 defaultOpencvParams emptyHeap
     = (Inl JsOther,
        \<lparr>created = [MatObj, GrayObj, FacesObj, ClassifierObj], deleted = []\<rparr>)
   \<and> leaked (snd (detectWithOpenCV throwingOpenCV image100 defaultOpencvParams emptyHeap))
       MatObj = 1
   \<and> leaked (snd (detectWithOpenCV throwingOpenCV image100 defaultOpencvParams emptyHeap))
       GrayObj = 1
   \<and> leaked (snd (detectWithOpenCV throwingOpenCV image100 defaultOpencvParams emptyHeap))
       FacesObj = 1
   \<and> leaked (snd (detectWithOpenCV throwingOpenCV image100 defaultOpencvParams emptyHeap))
       ClassifierObj = 1"
  by code_simp

section \<open>Properties of the orchestrator\<close>

lemma reasonMessage_nonempty: "reasonMessage reason \<noteq> []"
  by (cases reason) (simp_all add: reasonMessage_def)

text \<open>The state after a run, field by field, in terms of the two settled branches.\<close>

lemma runDetection_fields:
  "opencvResult (fst (runDetection (Some img) os fs op fp cv fa s)) =
     (case fst (opencvBranch os cv img op (snd s)) of Inr v \<Rightarrow> Some v | Inl e \<Rightarrow> None)"
  "opencvError (fst (runDetection (Some img) os fs op fp cv fa s)) =
     (case fst (opencvBranch os cv img op (snd s)) of
        Inr v \<Rightarrow> None | Inl e \<Rightarrow> Some (reasonMessage e))"
  "faceApiResult (fst (runDetection (Some img) os fs op fp cv fa s)) =
     (case faceApiBranch fs fa img fp of Inr v \<Rightarrow> Some v | Inl e \<Rightarrow> None)"
  "faceApiError (fst (runDetection (Some img) os fs op fp cv fa s)) =
     (case faceApiBranch fs fa img fp of Inr v \<Rightarrow> None | Inl e \<Rightarrow> Some (reasonMessage e))"
  "isDetecting (fst (runDetection (Some img) os fs op fp cv fa s)) = False"
  by (simp_all add: runDetection_def Let_def split: sum.splits)

lemma runDetection_without_image:
  "runDetection None os fs op fp cv fa s = s"
  by (simp add: runDetection_def)

lemma renderPanel_error: "e \<noteq> [] \<Longrightarrow> renderPanel (Some e) res = ErrorText e"
  by (simp add: renderPanel_def)

lemma renderPanel_result: "renderPanel None res = resultPanel res"
  by (simp add: renderPanel_def)

text \<open>
  C3. After a run on an image, each engine has either a result or an error in the state,
  never both and never neither. If the OpenCV branch fails and the face-api.js branch
  succeeds, the state holds the error message of the first and the result of the second,
  and the panels show exactly these; and the other way round. What the state holds for one
  engine does not depend on the status, the parameters or the answers of the other engine,
  nor on the state before the run.
\<close>

theorem runDetection_result_or_error:
  "(opencvResult (fst (runDetection (Some img) os fs op fp cv fa s)) = None)
     \<noteq> (opencvError (fst (runDetection (Some img) os fs op fp cv fa s)) = None)
   \<and> (faceApiResult (fst (runDetection (Some img) os fs op fp cv fa s)) = None)
     \<noteq> (faceApiError (fst (runDetection (Some img) os fs op fp cv fa s)) = None)
   \<and> (fst (opencvBranch os cv img op (snd s)) = Inl e \<and> faceApiBranch fs fa img fp = Inr v
      \<longrightarrow>
        opencvResult (fst (runDetection (Some img) os fs op fp cv fa s)) = None
        \<and> opencvError (fst (runDetection (Some img) os fs op fp cv fa s))
            = Some (reasonMessage e)
        \<and> faceApiResult (fst (runDetection (Some img) os fs op fp cv fa s)) = Some v
        \<and> faceApiError (fst (runDetection (Some img) os fs op fp cv fa s)) = None
        \<and> renderResults (fst (runDetection (Some img) os fs op fp cv fa s))
            = Some (ErrorText (reasonMessage e), resultPanel (Some v)))
   \<and> (fst (opencvBranch os cv img op (snd s)) = Inr v \<and> faceApiBranch fs fa img fp = Inl e
      \<longrightarrow>
        opencvResult (fst (runDetection (Some img) os fs op fp cv fa s)) = Some v
        \<and> opencvError (fst (runDetection (Some img) os fs op fp cv fa s)) = None
        \<and> faceApiResult (fst (runDetection (Some img) os fs op fp cv fa s)) = None
        \<and> faceApiError (fst (runDetection (Some img) os fs op fp cv fa s))
            = Some (reasonMessage e)
        \<and> renderResults (fst (runDetection (Some img) os fs op fp cv fa s))
            = Some (resultPanel (Some v), ErrorText (reasonMessage e)))
   \<and> faceApiResult (fst (runDetection (Some img) os fs op fp cv fa s))
       = faceApiResult (fst (runDetection (Some img) os' fs op' fp cv' fa s'))
   \<and> faceApiError (fst (runDetection (Some img) os fs op fp cv fa s))
       = faceApiError (fst (runDetection (Some img) os' fs op' fp cv' fa s'))
   \<and> opencvResult (fst (runDetection (Some img) os fs op fp cv fa s))
       = opencvResult (fst (runDetection (Some img) os fs' op fp' cv fa' (st', snd s)))
   \<and> opencvError (fst (runDetection (Some img) os fs op fp cv fa s))
       = opencvError (fst (runDetection (Some img) os fs' op fp' cv fa' (st', snd s)))"
  by (auto simp: runDetection_fields renderResults_def renderPanel_result renderPanel_error
        reasonMessage_nonempty truthy_def split: sum.splits)

theorem runDetection_result_or_error_witness:
  "fst (opencvBranch Error oneFaceOpenCV image100 defaultOpencvParams emptyHeap)
     = Inl (JsError ''OpenCV not loaded'')
   \<and> faceApiBranch Ready borderFaceApi image100 defaultFaceApiParams
     = Inr \<lparr>faces = [\<lparr>face_x = - 3, face_y = 12, face_width = 50, face_height = 50\<rparr>],
         croppedFaces = [PngOf image100 \<lparr>crop_x = 0, crop_y = 0, crop_w = 75, crop_h = 75\<rparr>],
         processingTime = 42\<rparr>
   \<and> opencvResult (fst (runDetection (Some image100) Error Ready defaultOpencvParams
          defaultFaceApiParams oneFaceOpenCV borderFaceApi (initialUIState, emptyHeap))) = None
   \<and> opencvError (fst (runDetection (Some image100) Error Ready defaultOpencvParams
          defaultFaceApiParams oneFaceOpenCV borderFaceApi (initialUIState, emptyHeap))) = Some ''OpenCV not loaded''
   \<and> faceApiResult (fst (runDetection (Some image100) Error Ready defaultOpencvParams
          defaultFaceApiParams oneFaceOpenCV borderFaceApi (initialUIState, emptyHeap)))
     = Some \<lparr>faces = [\<lparr>face_x = - 3, face_y = 12, face_width = 50, face_height = 50\<rparr>],
         croppedFaces = [PngOf image100 \<lparr>crop_x = 0, crop_y = 0, crop_w = 75, crop_h = 75\<rparr>],
         processingTime = 42\<rparr>
   \<and> faceApiError (fst (runDetection (Some image100) Error Ready defaultOpencvParams
          defaultFaceApiParams oneFaceOpenCV borderFaceApi (initialUIState, emptyHeap))) = None
   \<and> renderResults (fst (runDetection (Some image100) Error Ready defaultOpencvParams
          defaultFaceApiParams oneFaceOpenCV borderFaceApi (initialUIState, emptyHeap)))
     = Some (ErrorText ''OpenCV not loaded'',
             ResultPanel 42 1
               (Some [PngOf image100 \<lparr>crop_x = 0, crop_y = 0, crop_w = 75, crop_h = 75\<rparr>])
               False)"
proof -
  have h1: "fst (opencvBranch Error oneFaceOpenCV image100 defaultOpencvParams emptyHeap)
     = Inl (JsError ''OpenCV not loaded'')"
    by (simp add: opencvBranch_def)
  have h2: "faceApiBranch Ready borderFaceApi image100 defaultFaceApiParams
     = Inr \<lparr>faces = [\<lparr>face_x = - 3, face_y = 12, face_width = 50, face_height = 50\<rparr>],
         croppedFaces = [PngOf image100 \<lparr>crop_x = 0, crop_y = 0, crop_w = 75, crop_h = 75\<rparr>],
         processingTime = 42\<rparr>"
    by code_simp
  have m: "reasonMessage (JsError ''OpenCV not loaded'') = ''OpenCV not loaded''"
    by (simp add: reasonMessage_def)
  have p: "resultPanel (Some \<lparr>faces = [\<lparr>face_x = - 3, face_y = 12, face_width = 50, face_height = 50\<rparr>],
         croppedFaces = [PngOf image100 \<lparr>crop_x = 0, crop_y = 0, crop_w = 75, crop_h = 75\<rparr>],
         processingTime = 42\<rparr>)
     = ResultPanel 42 1
         (Some [PngOf image100 \<lparr>crop_x = 0, crop_y = 0, crop_w = 75, crop_h = 75\<rparr>]) False"
    by (simp add: resultPanel_def)
  from runDetection_result_or_error [where img = image100 and os = Error and fs = Ready
      and op = defaultOpencvParams and fp = defaultFaceApiParams and cv = oneFaceOpenCV
      and fa = borderFaceApi and s = "(initialUIState, emptyHeap)"
      and e = "JsError ''OpenCV not loaded''"
      and v = "\<lparr>faces = [\<lparr>face_x = - 3, face_y = 12, face_width = 50, face_height = 50\<rparr>],
         croppedFaces = [PngOf image100 \<lparr>crop_x = 0, crop_y = 0, crop_w = 75, crop_h = 75\<rparr>],
         processingTime = 42\<rparr>"
      and os' = Error and op' = defaultOpencvParams and cv' = oneFaceOpenCV
      and s' = "(initialUIState, emptyHeap)" and fs' = Ready and fp' = defaultFaceApiParams
      and fa' = borderFaceApi and st' = initialUIState]
  show ?thesis
    using h1 h2 by (simp add: m p)
qed

text \<open>
  C6. When a run leaves a result with no face for an engine, the \<^verbatim>\<open>croppedFaces\<close> of that
  result is empty, the engine has no error in the state, and its panel is the result panel
  with the count 0, no thumbnails and the paragraph \<^verbatim>\<open>No faces detected\<close>, not the error
  text.
\<close>

theorem zero_faces_shows_no_faces_detected:
  "(opencvResult (fst (runDetection (Some img) os fs op fp cv fa s)) = Some r \<and> faces r = []
    \<longrightarrow>
      croppedFaces r = []
      \<and> opencvError (fst (runDetection (Some img) os fs op fp cv fa s)) = None
      \<and> renderPanel (opencvError (fst (runDetection (Some img) os fs op fp cv fa s)))
          (opencvResult (fst (runDetection (Some img) os fs op fp cv fa s)))
        = ResultPanel (processingTime r) 0 None True
      \<and> renderResults (fst (runDetection (Some img) os fs op fp cv fa s)) \<noteq> None)
   \<and> (faceApiResult (fst (runDetection (Some img) os fs op fp cv fa s)) = Some r'
      \<and> faces r' = []
    \<longrightarrow>
      croppedFaces r' = []
      \<and> faceApiError (fst (runDetection (Some img) os fs op fp cv fa s)) = None
      \<and> renderPanel (faceApiError (fst (runDetection (Some img) os fs op fp cv fa s)))
          (faceApiResult (fst (runDetection (Some img) os fs op fp cv fa s)))
        = ResultPanel (processingTime r') 0 None True
      \<and> renderResults (fst (runDetection (Some img) os fs op fp cv fa s)) \<noteq> None)"
proof (intro conjI impI)
  let ?st = "fst (runDetection (Some img) os fs op fp cv fa s)"
  assume a: "opencvResult ?st = Some r \<and> faces r = []"
  then have b: "fst (opencvBranch os cv img op (snd s)) = Inr r"
    by (auto simp: runDetection_fields split: sum.splits)
  then have "detectWithOpenCV cv img op (snd s)
      = (Inr r, snd (detectWithOpenCV cv img op (snd s)))"
    by (auto simp: opencvBranch_def split: if_splits intro: prod_eqI)
  then have "croppedFaces r = cropFaces (ocv_cropCtx cv) img (faces r)"
    using detectWithOpenCV_Inr by blast
  with a show c: "croppedFaces r = []"
    by (simp add: cropFaces_def split: option.splits)
  show e: "opencvError ?st = None"
    using b by (simp add: runDetection_fields)
  show "renderPanel (opencvError ?st) (opencvResult ?st)
      = ResultPanel (processingTime r) 0 None True"
    using a c by (simp add: e renderPanel_result resultPanel_def)
  show "renderResults ?st \<noteq> None"
    using a by (simp add: renderResults_def)
next
  let ?st = "fst (runDetection (Some img) os fs op fp cv fa s)"
  assume a: "faceApiResult ?st = Some r' \<and> faces r' = []"
  then have b: "faceApiBranch fs fa img fp = Inr r'"
    by (auto simp: runDetection_fields split: sum.splits)
  then have "detectWithFaceApi fa img fp = Inr r'"
    by (auto simp: faceApiBranch_def split: if_splits)
  then have "croppedFaces r' = cropFaces (fa_cropCtx fa) img (faces r')"
    using detectWithFaceApi_Inr by blast
  with a show c: "croppedFaces r' = []"
    by (simp add: cropFaces_def split: option.splits)
  show e: "faceApiError ?st = None"
    using b by (simp add: runDetection_fields)
  show "renderPanel (faceApiError ?st) (faceApiResult ?st)
      = ResultPanel (processingTime r') 0 None True"
    using a c by (simp add: e renderPanel_result resultPanel_def)
  show "renderResults ?st \<noteq> None"
    using a by (simp add: renderResults_def)
qed

theorem zero_faces_shows_no_faces_detected_witness:
  "opencvResult (fst (runDetection (Some image100) Ready Ready defaultOpencvParams
          defaultFaceApiParams noFaceOpenCV noFaceFaceApi (initialUIState, emptyHeap)))
     = Some \<lparr>faces = [], croppedFaces = [], processingTime = 15\<rparr>
   \<and> faceApiResult (fst (runDetection (Some image100) Ready Ready defaultOpencvParams
          defaultFaceApiParams noFaceOpenCV noFaceFaceApi (initialUIState, emptyHeap)))
     = Some \<lparr>faces = [], croppedFaces = [], processingTime = 42\<rparr>
   \<and> opencvError (fst (runDetection (Some image100) Ready Ready defaultOpencvParams
          defaultFaceApiParams noFaceOpenCV noFaceFaceApi (initialUIState, emptyHeap))) = None
   \<and> faceApiError (fst (runDetection (Some image100) Ready Ready defaultOpencvParams
          defaultFaceApiParams noFaceOpenCV noFaceFaceApi (initialUIState, emptyHeap))) = None
   \<and> renderPanel (opencvError (fst (runDetection (Some image100) Ready Ready defaultOpencvParams
          defaultFaceApiParams noFaceOpenCV noFaceFaceApi (initialUIState, emptyHeap))))
       (opencvResult (fst (runDetection (Some image100) Ready Ready defaultOpencvParams
          defaultFaceApiParams noFaceOpenCV noFaceFaceApi (initialUIState, emptyHeap))))
     = ResultPanel 15 0 None True
   \<and> renderPanel (faceApiError (fst (runDetection (Some image100) Ready Ready defaultOpencvParams
          defaultFaceApiParams noFaceOpenCV noFaceFaceApi (initialUIState, emptyHeap))))
       (faceApiResult (fst (runDetection (Some image100) Ready Ready defaultOpencvParams
          defaultFaceApiParams noFaceOpenCV noFaceFaceApi (initialUIState, emptyHeap))))
     = ResultPanel 42 0 None True"
proof -
  have h1: "opencvResult (fst (runDetection (Some image100) Ready Ready defaultOpencvParams
          defaultFaceApiParams noFaceOpenCV noFaceFaceApi (initialUIState, emptyHeap)))
     = Some \<lparr>faces = [], croppedFaces = [], processingTime = 15\<rparr>"
    by code_simp
  have h2: "faceApiResult (fst (runDetection (Some image100) Ready Ready defaultOpencvParams
          defaultFaceApiParams noFaceOpenCV noFaceFaceApi (initialUIState, emptyHeap)))
     = Some \<lparr>faces = [], croppedFaces = [], processingTime = 42\<rparr>"
    by code_simp
  from zero_faces_shows_no_faces_detected [where img = image100 and os = Ready
      and fs = Ready and op = defaultOpencvParams and fp = defaultFaceApiParams
      and cv = noFaceOpenCV and fa = noFaceFaceApi and s = "(initialUIState, emptyHeap)"
      and r = "\<lparr>faces = [], croppedFaces = [], processingTime = 15\<rparr>"
      and r' = "\<lparr>faces = [], croppedFaces = [], processingTime = 42\<rparr>"]
  show ?thesis
    using h1 h2 by auto
qed

section \<open>Properties of the script loader\<close>























end
